theory Spec2Isabelle
  imports Main
begin

section \<open>Platform values shared by the components of script.js\<close>

text \<open>
  The persisted key-value store (\<^verbatim>\<open>localStorage\<close>): keys and values are strings,
  \<^verbatim>\<open>getItem\<close> answers \<^verbatim>\<open>null\<close> (here \<open>None\<close>) for a key that was never written.
\<close>

type_synonym storage = "string \<rightharpoonup> string"

definition getItem :: "storage \<Rightarrow> string \<Rightarrow> string option" where
  "getItem st k = st k"

definition setItem :: "storage \<Rightarrow> string \<Rightarrow> string \<Rightarrow> storage" where
  "setItem st k v = st(k \<mapsto> v)"

text \<open>
  JavaScript truthiness of a value that is \<^verbatim>\<open>null\<close> or a string, as tested by
  \<^verbatim>\<open>if (savedTheme)\<close>, \<^verbatim>\<open>if (text)\<close> and \<^verbatim>\<open>!localStorage.getItem('theme')\<close>:
  \<^verbatim>\<open>null\<close> and the empty string are falsy, every other string is truthy.
\<close>

definition truthy :: "string option \<Rightarrow> bool" where
  "truthy v = (case v of None \<Rightarrow> False | Some s \<Rightarrow> s \<noteq> [])"

text \<open>Every component state below extends the page's store.\<close>

record page =
  localStorage :: storage

section \<open>ThemeManager\<close>

text \<open>
  The state a \<^verbatim>\<open>ThemeManager\<close> reads and writes: its field \<^verbatim>\<open>currentTheme\<close>, the
  \<^verbatim>\<open>data-theme\<close> attribute of the document root (\<open>None\<close> while the attribute is not
  set) and the store. The OS colour-scheme signal is an input of each call: \<open>None\<close> when
  \<^verbatim>\<open>window.matchMedia\<close> does not exist, otherwise \<open>Some m\<close> with \<open>m\<close> the value of
  \<^verbatim>\<open>matchMedia('(prefers-color-scheme: dark)').matches\<close>.
\<close>

record theme_state = page +
  currentTheme :: string
  data_theme :: "string option"

definition systemTheme :: "bool option \<Rightarrow> string" where
  "systemTheme matchMedia =
     (if (case matchMedia of None \<Rightarrow> False | Some matches \<Rightarrow> matches) then ''dark''
      else ''light'')"

definition getInitialTheme :: "theme_state \<Rightarrow> bool option \<Rightarrow> string" where
  "getInitialTheme s matchMedia =
     (case getItem (localStorage s) ''theme'' of
        None \<Rightarrow> systemTheme matchMedia
      | Some savedTheme \<Rightarrow>
          if savedTheme \<noteq> [] then savedTheme else systemTheme matchMedia)"

definition setTheme :: "theme_state \<Rightarrow> string \<Rightarrow> theme_state" where
  "setTheme s theme =
     s\<lparr>currentTheme := theme,
       data_theme := Some theme,
       localStorage := setItem (localStorage s) ''theme'' theme\<rparr>"

text \<open>
  The constructor followed by \<^verbatim>\<open>init\<close>: \<^verbatim>\<open>this.currentTheme = this.getInitialTheme()\<close>,
  then \<^verbatim>\<open>this.setTheme(this.currentTheme)\<close>. The two listeners that \<^verbatim>\<open>init\<close> registers
  are the functions \<open>themeToggle_click\<close> and \<open>mediaQuery_change\<close> below.
\<close>

definition ThemeManager_new :: "theme_state \<Rightarrow> bool option \<Rightarrow> theme_state" where
  "ThemeManager_new s matchMedia =
     (let s1 = s\<lparr>currentTheme := getInitialTheme s matchMedia\<rparr>
      in setTheme s1 (currentTheme s1))"

text \<open>The click listener of \<^verbatim>\<open>.theme-toggle\<close>, registered when that element exists.\<close>

definition themeToggle_click :: "theme_state \<Rightarrow> theme_state" where
  "themeToggle_click s =
     (let newTheme = (if currentTheme s = ''light'' then ''dark'' else ''light'')
      in setTheme s newTheme)"

text \<open>
  The \<^verbatim>\<open>change\<close> listener of the media query, registered when \<^verbatim>\<open>window.matchMedia\<close>
  exists; its argument is \<^verbatim>\<open>e.matches\<close>.
\<close>

definition mediaQuery_change :: "theme_state \<Rightarrow> bool \<Rightarrow> theme_state" where
  "mediaQuery_change s matches =
     (if \<not> truthy (getItem (localStorage s) ''theme'')
      then setTheme s (if matches then ''dark'' else ''light'')
      else s)"

text \<open>A sequence of notifications, delivered one after the other.\<close>

definition mediaQuery_changes :: "theme_state \<Rightarrow> bool list \<Rightarrow> theme_state" where
  "mediaQuery_changes s es = foldl mediaQuery_change s es"

text \<open>Pages on first load: nothing stored, and a stored \<open>''light''\<close> or \<open>''dark''\<close>.\<close>

definition fresh_page :: theme_state where
  "fresh_page = \<lparr>localStorage = Map.empty, currentTheme = [], data_theme = None\<rparr>"

definition light_page :: theme_state where
  "light_page =
     \<lparr>localStorage = [''theme'' \<mapsto> ''light''], currentTheme = [], data_theme = None\<rparr>"

definition dark_page :: theme_state where
  "dark_page =
     \<lparr>localStorage = [''theme'' \<mapsto> ''dark''], currentTheme = [], data_theme = None\<rparr>"

section \<open>LanguageManager\<close>

text \<open>
  The document as \<^verbatim>\<open>setLanguage\<close> sees it: a tree of text nodes and elements. An
  element has its tag name (upper case, as the DOM reports it for HTML elements), its
  attributes in source order (their names in lower case, as the HTML parser stores
  them), its placeholder and its child nodes.
\<close>

datatype node =
    Text string
  | Element string "(string \<times> string) list" string "node list"

text \<open>
  \<^verbatim>\<open>getAttribute\<close> on an HTML element lower-cases the ASCII letters of the name it is
  asked for before it looks the attribute up.
\<close>

definition ascii_lowercase :: "string \<Rightarrow> string" where
  "ascii_lowercase name =
     map (\<lambda>c. case map_of (zip ''ABCDEFGHIJKLMNOPQRSTUVWXYZ'' ''abcdefghijklmnopqrstuvwxyz'') c of
                 None \<Rightarrow> c | Some l \<Rightarrow> l) name"

fun getAttribute :: "node \<Rightarrow> string \<Rightarrow> string option" where
  "getAttribute (Element tag attrs ph ch) name = map_of attrs (ascii_lowercase name)"
| "getAttribute (Text s) name = None"

definition hasAttribute :: "node \<Rightarrow> string \<Rightarrow> bool" where
  "hasAttribute n name = (getAttribute n name \<noteq> None)"


fun set_textContent :: "string \<Rightarrow> node \<Rightarrow> node" where
  "set_textContent t (Element tag attrs ph ch) =
     Element tag attrs ph (if t = [] then [] else [Text t])"
| "set_textContent t (Text s) = Text t"

fun set_placeholder :: "string \<Rightarrow> node \<Rightarrow> node" where
  "set_placeholder t (Element tag attrs ph ch) = Element tag attrs t ch"
| "set_placeholder t (Text s) = Text s"


fun update_at :: "nat list \<Rightarrow> (node \<Rightarrow> node) \<Rightarrow> node \<Rightarrow> node" where
  "update_at [] f n = f n"
| "update_at (i # p) f (Text s) = Text s"
| "update_at (i # p) f (Element tag attrs ph ch) =
     Element tag attrs ph (if i < length ch then ch[i := update_at p f (ch ! i)] else ch)"

text \<open>
  The class list of an element is a set of tokens. \<open>langFr\<close> and \<open>langEn\<close> are the class
  lists of the first \<^verbatim>\<open>.lang-fr\<close> and \<^verbatim>\<open>.lang-en\<close> elements (two distinct elements),
  \<open>None\<close> when the page has no such element. \<open>documentElement_lang\<close> is the \<^verbatim>\<open>lang\<close>
  attribute of the root, \<open>documentElement\<close> the tree below and including the root.
\<close>

record lang_state = page +
  currentLang :: string
  documentElement_lang :: string
  documentElement :: node
  langFr :: "string set option"
  langEn :: "string set option"

text \<open>The selector \<^verbatim>\<open>[data-fr][data-en]\<close>: both attributes are present, whatever their value.\<close>

definition matches_data_fr_en :: "node \<Rightarrow> bool" where
  "matches_data_fr_en e = (hasAttribute e ''data-fr'' \<and> hasAttribute e ''data-en'')"

text \<open>
  \<^verbatim>\<open>document.querySelectorAll('[data-fr][data-en]')\<close>: the static list of the matching
  elements, in document order, taken anew at every call of \<^verbatim>\<open>setLanguage\<close>. Each
  entry is the path of the element at the time of the query.
\<close>

fun querySelectorAll_data_fr_en :: "node \<Rightarrow> nat list list"
  and querySelectorAll_children :: "nat \<Rightarrow> node list \<Rightarrow> nat list list" where
  "querySelectorAll_data_fr_en (Text s) = []"
| "querySelectorAll_data_fr_en (Element tag attrs ph ch) =
     (if matches_data_fr_en (Element tag attrs ph ch) then [[]] else [])
       @ querySelectorAll_children 0 ch"
| "querySelectorAll_children i [] = []"
| "querySelectorAll_children i (c # cs) =
     map ((#) i) (querySelectorAll_data_fr_en c) @ querySelectorAll_children (Suc i) cs"

text \<open>
  The body of the \<^verbatim>\<open>forEach\<close> callback, for one element of the list. On a text node it
  does nothing: see \<open>forEach_setElementText\<close>.
\<close>

fun setElementText :: "string \<Rightarrow> node \<Rightarrow> node" where
  "setElementText lang (Text s) = Text s"
| "setElementText lang (Element tag attrs ph ch) =
     (let element = Element tag attrs ph ch;
          text = getAttribute element (''data-'' @ lang) in
      if truthy text then
        (case text of
           None \<Rightarrow> element
         | Some t \<Rightarrow>
             if tag = ''INPUT'' \<or> tag = ''TEXTAREA'' then set_placeholder t element
             else if tag = ''BUTTON'' then set_textContent t element
             else set_textContent t element)
      else element)"

definition updateLanguageButton :: "lang_state \<Rightarrow> lang_state" where
  "updateLanguageButton s =
     (case (langFr s, langEn s) of
        (Some fr, Some en) \<Rightarrow>
          if currentLang s = ''fr''
          then s\<lparr>langFr := Some (insert ''active'' fr), langEn := Some (en - {''active''})\<rparr>
          else s\<lparr>langFr := Some (fr - {''active''}), langEn := Some (insert ''active'' en)\<rparr>
      | _ \<Rightarrow> s)"

text \<open>
  The loop \<^verbatim>\<open>elements.forEach(...)\<close>: one write per entry of the list, in order. Once
  an assignment to \<^verbatim>\<open>textContent\<close> has replaced the children of an element, the
  entries of the list for its former descendants are references to nodes outside the
  document; the loop still writes them, and the document does not change. In the model
  the path of such an entry leads nowhere, or to the text node that took the place of
  the children, and the write leaves the document as it is.
\<close>

definition forEach_setElementText :: "string \<Rightarrow> node \<Rightarrow> nat list list \<Rightarrow> node" where
  "forEach_setElementText lang root elements =
     foldl (\<lambda>d element. update_at element (setElementText lang) d) root elements"

definition setLanguage :: "lang_state \<Rightarrow> string \<Rightarrow> lang_state" where
  "setLanguage s lang =
     updateLanguageButton
       (s\<lparr>currentLang := lang,
          localStorage := setItem (localStorage s) ''lang'' lang,
          documentElement_lang := lang,
          documentElement :=
            forEach_setElementText lang (documentElement s)
              (querySelectorAll_data_fr_en (documentElement s))\<rparr>)"

text \<open>
  The constructor with \<^verbatim>\<open>init\<close>: \<^verbatim>\<open>localStorage.getItem('lang') || 'fr'\<close>, then
  \<^verbatim>\<open>setLanguage\<close>.
\<close>

definition LanguageManager_new :: "lang_state \<Rightarrow> lang_state" where
  "LanguageManager_new s =
     (let stored = getItem (localStorage s) ''lang'';
          lang = (case stored of None \<Rightarrow> ''fr'' | Some l \<Rightarrow> if l \<noteq> [] then l else ''fr'')
      in setLanguage (s\<lparr>currentLang := lang\<rparr>) lang)"

text \<open>The click listener of \<^verbatim>\<open>.lang-switch\<close>, registered when that element exists.\<close>

definition langSwitch_click :: "lang_state \<Rightarrow> lang_state" where
  "langSwitch_click s =
     (let newLang = (if currentLang s = ''fr'' then ''en'' else ''fr'')
      in setLanguage s newLang)"




text \<open>
  The document that one run of the loop leaves, by recursion over the tree; it is
  proved below to be what the loop computes.
\<close>

fun translated :: "string \<Rightarrow> node \<Rightarrow> node" where
  "translated lang (Text s) = Text s"
| "translated lang (Element tag attrs ph ch) =
     (case (if matches_data_fr_en (Element tag attrs ph ch)
            then getAttribute (Element tag attrs ph ch) (''data-'' @ lang) else None) of
        None \<Rightarrow> Element tag attrs ph (map (translated lang) ch)
      | Some t \<Rightarrow>
          if t = [] then Element tag attrs ph (map (translated lang) ch)
          else if tag = ''INPUT'' \<or> tag = ''TEXTAREA''
          then Element tag attrs t (map (translated lang) ch)
          else Element tag attrs ph [Text t])"




definition nested_page :: lang_state where
  "nested_page =
     \<lparr>localStorage = Map.empty, currentLang = ''fr'', documentElement_lang = ''fr'',
      documentElement =
        Element ''HTML'' [] []
          [Element ''DIV'' [(''data-fr'', ''ParentFr''), (''data-en'', ''ParentEn'')] []
             [Element ''SPAN'' [(''data-fr'', ''ChildFr''), (''data-en'', ''ChildEn'')] []
                [Text ''ChildFr'']]],
      langFr = None, langEn = None\<rparr>"

section \<open>MobileMenu\<close>

text \<open>
  The menu keeps no field of its own besides the two elements it found: its state is
  the class list of the trigger (\<^verbatim>\<open>.mobile-menu-toggle\<close>), the trigger's
  \<^verbatim>\<open>aria-expanded\<close> attribute and the class list of the panel (\<^verbatim>\<open>.nav-menu\<close>).
\<close>

record menu_state =
  toggle_classList :: "string set"
  aria_expanded :: "string option"
  menu_classList :: "string set"

text \<open>
  The constructor with \<^verbatim>\<open>init\<close>. Each argument is what \<^verbatim>\<open>querySelector\<close> found, \<open>None\<close>
  for \<^verbatim>\<open>null\<close>. When either is missing, \<^verbatim>\<open>init\<close> returns before it registers any
  listener: the result \<open>None\<close> is a component without handlers.
\<close>

definition MobileMenu_new ::
  "(string set \<times> string option) option \<Rightarrow> string set option \<Rightarrow> menu_state option" where
  "MobileMenu_new toggle menu =
     (case (toggle, menu) of
        (Some (classes, aria), Some panel) \<Rightarrow>
          Some \<lparr>toggle_classList = classes, aria_expanded = aria, menu_classList = panel\<rparr>
      | _ \<Rightarrow> None)"

definition classList_toggle :: "string \<Rightarrow> string set \<Rightarrow> string set" where
  "classList_toggle c cl = (if c \<in> cl then cl - {c} else insert c cl)"

text \<open>\<^verbatim>\<open>setAttribute\<close> turns the boolean of \<^verbatim>\<open>classList.contains\<close> into its string.\<close>

definition toggleMenu :: "menu_state \<Rightarrow> menu_state" where
  "toggleMenu s =
     (let s1 = s\<lparr>menu_classList := classList_toggle ''active'' (menu_classList s)\<rparr>;
          s2 = s1\<lparr>toggle_classList := classList_toggle ''active'' (toggle_classList s1)\<rparr>
      in s2\<lparr>aria_expanded :=
               Some (if ''active'' \<in> menu_classList s2 then ''true'' else ''false'')\<rparr>)"

definition closeMenu :: "menu_state \<Rightarrow> menu_state" where
  "closeMenu s =
     s\<lparr>menu_classList := menu_classList s - {''active''},
       toggle_classList := toggle_classList s - {''active''},
       aria_expanded := Some ''false''\<rparr>"

text \<open>The four listeners that \<^verbatim>\<open>init\<close> registers.\<close>

definition toggle_click :: "menu_state \<Rightarrow> menu_state" where
  "toggle_click s = toggleMenu s"

text \<open>
  The document's click listener; its arguments are \<^verbatim>\<open>this.toggle.contains(e.target)\<close>
  and \<^verbatim>\<open>this.menu.contains(e.target)\<close>.
\<close>

definition document_click :: "menu_state \<Rightarrow> bool \<Rightarrow> bool \<Rightarrow> menu_state" where
  "document_click s in_toggle in_menu =
     (if \<not> in_toggle \<and> \<not> in_menu then closeMenu s else s)"

definition menuLink_click :: "menu_state \<Rightarrow> menu_state" where
  "menuLink_click s = closeMenu s"

text \<open>The argument is \<^verbatim>\<open>window.innerWidth\<close>, an integer number of pixels.\<close>

definition window_resize :: "menu_state \<Rightarrow> int \<Rightarrow> menu_state" where
  "window_resize s innerWidth = (if innerWidth > 767 then closeMenu s else s)"

text \<open>
  The events the menu reacts to. A click first runs the listener of the element it hits
  and then bubbles to the document's listener. The trigger and the panel are taken to be
  two separate subtrees of the page, the links being inside the panel.
\<close>

datatype menu_event = TriggerClick | LinkClick | PanelClick | OutsideClick | Resize int

fun dispatch :: "menu_state \<Rightarrow> menu_event \<Rightarrow> menu_state" where
  "dispatch s TriggerClick = document_click (toggle_click s) True False"
| "dispatch s LinkClick = document_click (menuLink_click s) False True"
| "dispatch s PanelClick = document_click s False True"
| "dispatch s OutsideClick = document_click s False False"
| "dispatch s (Resize w) = window_resize s w"

definition menu_events :: "menu_state \<Rightarrow> menu_event list \<Rightarrow> menu_state" where
  "menu_events s es = foldl dispatch s es"

text \<open>
  The two-state machine in the words of the specification, \<open>True\<close> for open: a click on
  the trigger toggles; a click outside, a click on a contained link and a resize to a
  width of at least 768 force closed; anything else leaves the state.
\<close>

fun menu_spec :: "bool \<Rightarrow> menu_event \<Rightarrow> bool" where
  "menu_spec b TriggerClick = (\<not> b)"
| "menu_spec b LinkClick = False"
| "menu_spec b OutsideClick = False"
| "menu_spec b (Resize w) = (if 768 \<le> w then False else b)"
| "menu_spec b PanelClick = b"

definition menu_spec_run :: "menu_event list \<Rightarrow> bool" where
  "menu_spec_run es = foldl menu_spec False es"

text \<open>The events that are transitions of that machine.\<close>

fun is_transition :: "menu_event \<Rightarrow> bool" where
  "is_transition (Resize w) = (768 \<le> w)"
| "is_transition PanelClick = False"
| "is_transition _ = True"

text \<open>The state classes agree with \<open>b\<close>; and the ARIA flag agrees as well.\<close>

definition classes_agree :: "menu_state \<Rightarrow> bool \<Rightarrow> bool" where
  "classes_agree s b =
     (((''active'' \<in> toggle_classList s) = b) \<and> ((''active'' \<in> menu_classList s) = b))"

definition menu_agrees :: "menu_state \<Rightarrow> bool \<Rightarrow> bool" where
  "menu_agrees s b =
     (classes_agree s b \<and> aria_expanded s = Some (if b then ''true'' else ''false''))"

definition closed_menu :: menu_state where
  "closed_menu =
     \<lparr>toggle_classList = {''mobile-menu-toggle''}, aria_expanded = None,
      menu_classList = {''nav-menu''}\<rparr>"

section \<open>SmoothScroll\<close>

text \<open>
  What the click listener of an anchor needs from the page. \<^verbatim>\<open>document.querySelector\<close>
  is the platform's: it either rejects its argument as a selector by raising a
  \<^verbatim>\<open>SyntaxError\<close> (\<open>Inl\<close>), or answers \<^verbatim>\<open>null\<close> (\<open>Inr None\<close>), or answers the first
  matching element, which stands here for the one thing the listener reads from it,
  \<^verbatim>\<open>getBoundingClientRect().top\<close>. Numbers are kept abstract: any type with the
  operations the listener uses. \<open>element_ids\<close> lists the elements of the page that
  carry an id, in document order, each with its bounding top; the listener never reads
  it.
\<close>

datatype dom_exception = SyntaxError

record 'n scroll_page =
  element_ids :: "(string \<times> 'n) list"
  querySelector :: "string \<Rightarrow> dom_exception + 'n option"
  pageYOffset :: 'n

text \<open>The argument of \<^verbatim>\<open>window.scrollTo\<close>.\<close>

record 'n scroll_options =
  scroll_top :: 'n
  behavior :: string

text \<open>
  What a click leaves behind when the listener returns: whether it called
  \<^verbatim>\<open>e.preventDefault()\<close>, and the calls of \<^verbatim>\<open>window.scrollTo\<close> it made.
\<close>

record 'n click_effect =
  defaultPrevented :: bool
  scrollTo_calls :: "'n scroll_options list"

text \<open>
  The listener, for an anchor whose \<^verbatim>\<open>href\<close> attribute is \<open>href\<close>. An exception of
  \<^verbatim>\<open>querySelector\<close> leaves the listener at once, before any effect.
\<close>

definition anchor_click ::
  "('n::{plus,minus,numeral}) scroll_page \<Rightarrow> string \<Rightarrow> dom_exception + 'n click_effect" where
  "anchor_click page href =
     (if href = ''#'' then Inr \<lparr>defaultPrevented = True, scrollTo_calls = []\<rparr>
      else
        (case querySelector page href of
           Inl exn \<Rightarrow> Inl exn
         | Inr None \<Rightarrow> Inr \<lparr>defaultPrevented = False, scrollTo_calls = []\<rparr>
         | Inr (Some elementPosition) \<Rightarrow>
             (let headerOffset = 80;
                  offsetPosition = elementPosition + pageYOffset page - headerOffset
              in Inr \<lparr>defaultPrevented = True,
                      scrollTo_calls =
                        [\<lparr>scroll_top = offsetPosition, behavior = ''smooth''\<rparr>]\<rparr>)))"

text \<open>
  A page scrolled down by 300 whose element \<^verbatim>\<open>#contact\<close> has its top edge at 500, and
  whose anchors include \<^verbatim>\<open><a href="#1">\<close>: an ID selector cannot start with a digit,
  so the platform rejects \<^verbatim>\<open>#1\<close> (as it rejects a bare \<^verbatim>\<open>#\<close>).
\<close>

definition contact_page :: "int scroll_page" where
  "contact_page =
     \<lparr>element_ids = [(''contact'', 500)],
      querySelector = (\<lambda>selectors.
         if selectors = ''#contact'' then Inr (Some 500)
         else if selectors = ''#1'' \<or> selectors = ''#'' then Inl SyntaxError
         else Inr None),
      pageYOffset = 300\<rparr>"

text \<open>
  The element that the fragment of an href names, in the words of the specification:
  the first element whose id is the href without its leading \<^verbatim>\<open>#\<close>.
\<close>

definition fragment_target :: "'n scroll_page \<Rightarrow> string \<Rightarrow> 'n option" where
  "fragment_target page href = map_of (element_ids page) (drop 1 href)"

text \<open>
  A page scrolled down by 300 with \<^verbatim>\<open><section id="1">\<close>, its top edge at 500, and an
  anchor \<^verbatim>\<open><a href="#1">\<close> to it. The platform rejects \<^verbatim>\<open>#1\<close> as a selector.
\<close>

definition numbered_page :: "int scroll_page" where
  "numbered_page =
     \<lparr>element_ids = [(''1'', 500)],
      querySelector = (\<lambda>selectors.
         if selectors = ''#1'' \<or> selectors = ''#'' then Inl SyntaxError else Inr None),
      pageYOffset = 300\<rparr>"

section \<open>ScrollAnimations\<close>

text \<open>
  The inline style of an element, as far as \<^verbatim>\<open>ScrollAnimations\<close> writes it. Elements
  are named by a number; the state maps each element to its style and lists the
  elements handed to \<^verbatim>\<open>observer.observe\<close>.
\<close>

record style =
  opacity :: string
  transform :: string
  transition :: string

record anim_state =
  styles :: "nat \<Rightarrow> style"
  observed :: "nat list"

text \<open>The body of \<^verbatim>\<open>elementsToAnimate.forEach\<close> in \<^verbatim>\<open>init\<close>.\<close>

definition arm :: "anim_state \<Rightarrow> nat \<Rightarrow> anim_state" where
  "arm s el =
     s\<lparr>styles := (styles s)
          (el := (styles s el)\<lparr>opacity := ''0'',
                                transform := ''translateY(20px)'',
                                transition := ''opacity 0.6s ease, transform 0.6s ease''\<rparr>),
       observed := observed s @ [el]\<rparr>"

definition ScrollAnimations_init :: "anim_state \<Rightarrow> nat list \<Rightarrow> anim_state" where
  "ScrollAnimations_init s elementsToAnimate = foldl arm s elementsToAnimate"

record entry =
  target :: nat
  isIntersecting :: bool

text \<open>The observer's callback: one step per entry, then the whole batch.\<close>

definition reveal :: "anim_state \<Rightarrow> entry \<Rightarrow> anim_state" where
  "reveal s en =
     (if isIntersecting en
      then s\<lparr>styles := (styles s)
               (target en := (styles s (target en))\<lparr>opacity := ''1'',
                                                    transform := ''translateY(0)''\<rparr>)\<rparr>
      else s)"

definition observer_callback :: "anim_state \<Rightarrow> entry list \<Rightarrow> anim_state" where
  "observer_callback s entries = foldl reveal s entries"

definition observer_callbacks :: "anim_state \<Rightarrow> entry list list \<Rightarrow> anim_state" where
  "observer_callbacks s batches = foldl observer_callback s batches"

text \<open>Hidden: opacity 0, moved down by 20. Shown: opacity 1, not moved.\<close>

definition hidden :: "anim_state \<Rightarrow> nat \<Rightarrow> bool" where
  "hidden s el =
     (opacity (styles s el) = ''0'' \<and> transform (styles s el) = ''translateY(20px)'')"

definition shown :: "anim_state \<Rightarrow> nat \<Rightarrow> bool" where
  "shown s el =
     (opacity (styles s el) = ''1'' \<and> transform (styles s el) = ''translateY(0)'')"

definition unstyled_page :: anim_state where
  "unstyled_page =
     \<lparr>styles = (\<lambda>el. \<lparr>opacity = [], transform = [], transition = []\<rparr>), observed = []\<rparr>"

section \<open>Theme resolution\<close>

lemma getItem_setItem: "getItem (setItem st k v) k' = (if k' = k then Some v else getItem st k')"
  by (simp add: getItem_def setItem_def)

lemma systemTheme_nonempty: "systemTheme m \<noteq> []"
  by (simp add: systemTheme_def)

lemma getInitialTheme_nonempty: "getInitialTheme s m \<noteq> []"
  by (simp add: getInitialTheme_def systemTheme_nonempty split: option.splits)

text \<open>
  C1: for every stored theme preference, present or absent, and every OS signal (dark,
  not dark, or no capability to ask), the initial theme is the stored preference when
  one is present; otherwise \<open>''dark''\<close> when the OS signals dark; otherwise \<open>''light''\<close>.
  A preference is present when the code's own test \<^verbatim>\<open>if (savedTheme)\<close> finds one, as it
  does for \<open>''light''\<close>, for \<open>''dark''\<close> and for every value the program itself writes.
\<close>

theorem getInitialTheme_precedence:
  "(truthy (getItem (localStorage s) ''theme'')
        \<longrightarrow> getItem (localStorage s) ''theme'' = Some (getInitialTheme s m))
   \<and> (getItem (localStorage s) ''theme'' = Some ''light'' \<longrightarrow> getInitialTheme s m = ''light'')
   \<and> (getItem (localStorage s) ''theme'' = Some ''dark'' \<longrightarrow> getInitialTheme s m = ''dark'')
   \<and> (\<not> truthy (getItem (localStorage s) ''theme'') \<and> m = Some True
        \<longrightarrow> getInitialTheme s m = ''dark'')
   \<and> (\<not> truthy (getItem (localStorage s) ''theme'') \<and> (m = Some False \<or> m = None)
        \<longrightarrow> getInitialTheme s m = ''light'')
   \<and> (getItem (localStorage s) ''theme'' = None \<longrightarrow> getInitialTheme s m = systemTheme m)"
  by (auto simp: getInitialTheme_def systemTheme_def truthy_def split: option.splits)

theorem getInitialTheme_precedence_witness:
  "getInitialTheme light_page (Some True) = ''light''
   \<and> getInitialTheme dark_page (Some False) = ''dark''
   \<and> getInitialTheme dark_page None = ''dark''
   \<and> getInitialTheme fresh_page (Some True) = ''dark''
   \<and> getInitialTheme fresh_page (Some False) = ''light''
   \<and> getInitialTheme fresh_page None = ''light''"
  using getInitialTheme_precedence [of light_page "Some True"]
    getInitialTheme_precedence [of dark_page "Some False"]
    getInitialTheme_precedence [of dark_page None]
    getInitialTheme_precedence [of fresh_page "Some True"]
    getInitialTheme_precedence [of fresh_page "Some False"]
    getInitialTheme_precedence [of fresh_page None]
  by (simp add: light_page_def dark_page_def fresh_page_def getItem_def truthy_def)

section \<open>OS notifications, idempotence and the toggle\<close>

lemma truthy_setTheme:
  "theme \<noteq> [] \<Longrightarrow> truthy (getItem (localStorage (setTheme s theme)) ''theme'')"
  by (simp add: setTheme_def getItem_setItem truthy_def)

lemma ThemeManager_new_eq:
  "ThemeManager_new s m = setTheme s (getInitialTheme s m)"
  by (simp add: ThemeManager_new_def setTheme_def Let_def)

lemma truthy_ThemeManager_new:
  "truthy (getItem (localStorage (ThemeManager_new s m)) ''theme'')"
  by (simp add: ThemeManager_new_eq truthy_setTheme getInitialTheme_nonempty)

lemma truthy_themeToggle_click:
  "truthy (getItem (localStorage (themeToggle_click s)) ''theme'')"
  by (simp add: themeToggle_click_def Let_def truthy_setTheme)

lemma truthy_mediaQuery_change:
  "truthy (getItem (localStorage (mediaQuery_change s b)) ''theme'')"
  by (simp add: mediaQuery_change_def truthy_setTheme)

lemma mediaQuery_change_persisted:
  "truthy (getItem (localStorage s) ''theme'') \<Longrightarrow> mediaQuery_change s b = s"
  by (simp add: mediaQuery_change_def)

lemma mediaQuery_changes_persisted:
  "truthy (getItem (localStorage s) ''theme'') \<Longrightarrow> mediaQuery_changes s es = s"
  unfolding mediaQuery_changes_def
  by (induction es) (simp_all add: mediaQuery_change_persisted)

text \<open>
  C2: every way the program persists a theme (the constructor, a click on the toggle, an
  OS notification that found nothing stored) leaves a state that no later sequence of OS
  notifications changes: the applied theme, the field and the store all stay as they
  are. The same holds from any state whose store holds a non-empty theme, such as an
  explicit \<open>''light''\<close>. Conversely, a notification that arrives while nothing is stored
  under the key applies (and persists) the theme the OS reports.
\<close>

theorem mediaQuery_change_respects_persisted:
  "mediaQuery_changes (ThemeManager_new s m) es = ThemeManager_new s m
   \<and> mediaQuery_changes (themeToggle_click s) es = themeToggle_click s
   \<and> mediaQuery_changes (mediaQuery_change s b) es = mediaQuery_change s b
   \<and> (getItem (localStorage s) ''theme'' = Some v \<and> v \<noteq> []
        \<longrightarrow> mediaQuery_changes s es = s)
   \<and> (getItem (localStorage s) ''theme'' = None
        \<longrightarrow> data_theme (mediaQuery_change s b) = Some (if b then ''dark'' else ''light'')
          \<and> currentTheme (mediaQuery_change s b) = (if b then ''dark'' else ''light'')
          \<and> getItem (localStorage (mediaQuery_change s b)) ''theme''
              = Some (if b then ''dark'' else ''light''))"
proof -
  have a: "mediaQuery_changes (ThemeManager_new s m) es = ThemeManager_new s m"
    by (rule mediaQuery_changes_persisted [OF truthy_ThemeManager_new])
  have b: "mediaQuery_changes (themeToggle_click s) es = themeToggle_click s"
    by (rule mediaQuery_changes_persisted [OF truthy_themeToggle_click])
  have c: "mediaQuery_changes (mediaQuery_change s b) es = mediaQuery_change s b"
    by (rule mediaQuery_changes_persisted [OF truthy_mediaQuery_change])
  have d: "getItem (localStorage s) ''theme'' = Some v \<and> v \<noteq> []
        \<longrightarrow> mediaQuery_changes s es = s"
    by (simp add: mediaQuery_changes_persisted truthy_def)
  have e: "getItem (localStorage s) ''theme'' = None
        \<longrightarrow> data_theme (mediaQuery_change s b) = Some (if b then ''dark'' else ''light'')
          \<and> currentTheme (mediaQuery_change s b) = (if b then ''dark'' else ''light'')
          \<and> getItem (localStorage (mediaQuery_change s b)) ''theme''
              = Some (if b then ''dark'' else ''light'')"
    by (simp add: mediaQuery_change_def truthy_def setTheme_def getItem_setItem)
  from a b c d e show ?thesis by blast
qed

theorem mediaQuery_change_respects_persisted_witness:
  "mediaQuery_changes (light_page\<lparr>data_theme := Some ''light''\<rparr>) [True, False, True]
     = light_page\<lparr>data_theme := Some ''light''\<rparr>
   \<and> data_theme (mediaQuery_change fresh_page True) = Some ''dark''
   \<and> getItem (localStorage (mediaQuery_change fresh_page True)) ''theme'' = Some ''dark''"
  using mediaQuery_change_respects_persisted
      [of "light_page\<lparr>data_theme := Some ''light''\<rparr>" None "[True, False, True]" True "''light''"]
    mediaQuery_change_respects_persisted [of fresh_page None "[]" True "[]"]
  by (simp add: light_page_def fresh_page_def getItem_def)

text \<open>
  C3: for every initial state and OS signal, resolve-and-apply (the constructor with
  \<^verbatim>\<open>init\<close>) persists the theme it resolved, also when nothing was stored and the
  theme came from the OS signal; a second run, under any OS signal, returns the very
  same state: same applied theme, same stored value.
\<close>

theorem ThemeManager_new_idempotent:
  "getItem (localStorage (ThemeManager_new s m)) ''theme'' = Some (getInitialTheme s m)
   \<and> data_theme (ThemeManager_new s m) = Some (getInitialTheme s m)
   \<and> currentTheme (ThemeManager_new s m) = getInitialTheme s m
   \<and> (getItem (localStorage s) ''theme'' = None
        \<longrightarrow> getItem (localStorage (ThemeManager_new s m)) ''theme'' = Some (systemTheme m))
   \<and> getInitialTheme (ThemeManager_new s m) m' = getInitialTheme s m
   \<and> ThemeManager_new (ThemeManager_new s m) m' = ThemeManager_new s m"
proof -
  let ?t = "getInitialTheme s m"
  have t: "?t \<noteq> []" by (rule getInitialTheme_nonempty)
  have stored: "getItem (localStorage (ThemeManager_new s m)) ''theme'' = Some ?t"
    by (simp add: ThemeManager_new_eq setTheme_def getItem_setItem)
  have again: "getInitialTheme (ThemeManager_new s m) m' = ?t"
    using t stored by (simp add: getInitialTheme_def)
  have twice: "ThemeManager_new (ThemeManager_new s m) m' = ThemeManager_new s m"
    unfolding ThemeManager_new_eq [of "ThemeManager_new s m" m'] again
    by (simp add: ThemeManager_new_eq setTheme_def setItem_def)
  have auto_detected: "getItem (localStorage s) ''theme'' = None
        \<longrightarrow> getItem (localStorage (ThemeManager_new s m)) ''theme'' = Some (systemTheme m)"
    by (simp add: stored getInitialTheme_def)
  have applied: "data_theme (ThemeManager_new s m) = Some ?t"
    and field: "currentTheme (ThemeManager_new s m) = ?t"
    by (simp_all add: ThemeManager_new_eq setTheme_def)
  from stored applied field auto_detected again twice show ?thesis by blast
qed

theorem ThemeManager_new_idempotent_witness:
  "getItem (localStorage (ThemeManager_new fresh_page (Some True))) ''theme'' = Some ''dark''
   \<and> ThemeManager_new (ThemeManager_new fresh_page (Some True)) (Some False)
       = ThemeManager_new fresh_page (Some True)"
  using ThemeManager_new_idempotent [of fresh_page "Some True" "Some False"]
  by (simp add: fresh_page_def getItem_def getInitialTheme_def systemTheme_def)

text \<open>
  C4: for a current theme of \<open>''light''\<close> or \<open>''dark''\<close>, a click on the toggle yields
  the other of the two, writes it to the \<^verbatim>\<open>data-theme\<close> attribute of the document root
  and persists it; a second click brings field, attribute and store back to the
  original theme.
\<close>

theorem themeToggle_click_flips:
  assumes "currentTheme s = ''light'' \<or> currentTheme s = ''dark''"
  shows "(currentTheme s = ''light'' \<longrightarrow> currentTheme (themeToggle_click s) = ''dark'')
   \<and> (currentTheme s = ''dark'' \<longrightarrow> currentTheme (themeToggle_click s) = ''light'')
   \<and> data_theme (themeToggle_click s) = Some (currentTheme (themeToggle_click s))
   \<and> getItem (localStorage (themeToggle_click s)) ''theme''
       = Some (currentTheme (themeToggle_click s))
   \<and> currentTheme (themeToggle_click (themeToggle_click s)) = currentTheme s
   \<and> data_theme (themeToggle_click (themeToggle_click s)) = Some (currentTheme s)
   \<and> getItem (localStorage (themeToggle_click (themeToggle_click s))) ''theme''
       = Some (currentTheme s)"
  using assms
  by (auto simp: themeToggle_click_def setTheme_def getItem_setItem Let_def)

theorem themeToggle_click_flips_witness:
  "currentTheme (themeToggle_click (ThemeManager_new fresh_page None)) = ''dark''
   \<and> data_theme (themeToggle_click (ThemeManager_new fresh_page None)) = Some ''dark''
   \<and> getItem (localStorage (themeToggle_click (ThemeManager_new fresh_page None))) ''theme''
       = Some ''dark''
   \<and> currentTheme (themeToggle_click (themeToggle_click (ThemeManager_new fresh_page None)))
       = ''light''"
proof -
  have h: "currentTheme (ThemeManager_new fresh_page None) = ''light''"
    by (simp add: ThemeManager_new_def fresh_page_def getInitialTheme_def getItem_def
        systemTheme_def setTheme_def Let_def)
  show ?thesis
    using themeToggle_click_flips [of "ThemeManager_new fresh_page None"] h by simp
qed

section \<open>Language switching\<close>

subsection \<open>The loop over the node list computes the recursive translation\<close>

lemma update_at_Text: "update_at p (setElementText lang) (Text s) = Text s"
  by (cases p) simp_all

lemma update_at_overwritten:
  "q \<noteq> [] \<Longrightarrow> update_at q (setElementText lang) (Element tag attrs ph [Text t])
     = Element tag attrs ph [Text t]"
  by (cases q) (simp_all add: update_at_Text less_Suc_eq)

lemma forEach_overwritten:
  "\<forall>q\<in>set qs. q \<noteq> [] \<Longrightarrow>
     forEach_setElementText lang (Element tag attrs ph [Text t]) qs = Element tag attrs ph [Text t]"
  unfolding forEach_setElementText_def
  by (induction qs) (simp_all add: update_at_overwritten)

lemma querySelectorAll_children_nonempty: "[] \<notin> set (querySelectorAll_children i cs)"
  by (induction cs arbitrary: i) auto

lemma forEach_in_child:
  "forEach_setElementText lang (Element tag attrs ph (pre @ c # post)) (map ((#) (length pre)) ps)
     = Element tag attrs ph (pre @ forEach_setElementText lang c ps # post)"
  unfolding forEach_setElementText_def
  by (induction ps arbitrary: c) simp_all

lemma forEach_append:
  "forEach_setElementText lang d (ps @ qs)
     = forEach_setElementText lang (forEach_setElementText lang d ps) qs"
  by (simp add: forEach_setElementText_def)

lemma forEach_children:
  "(\<And>c. c \<in> set cs \<Longrightarrow>
        forEach_setElementText lang c (querySelectorAll_data_fr_en c) = translated lang c)
   \<Longrightarrow> forEach_setElementText lang (Element tag attrs ph (pre @ cs))
         (querySelectorAll_children (length pre) cs)
       = Element tag attrs ph (pre @ map (translated lang) cs)"
proof (induction cs arbitrary: pre)
  case Nil
  then show ?case by (simp add: forEach_setElementText_def)
next
  case (Cons c cs)
  have c: "forEach_setElementText lang c (querySelectorAll_data_fr_en c) = translated lang c"
    by (rule Cons.prems) simp
  have rest: "forEach_setElementText lang (Element tag attrs ph ((pre @ [translated lang c]) @ cs))
         (querySelectorAll_children (length (pre @ [translated lang c])) cs)
       = Element tag attrs ph ((pre @ [translated lang c]) @ map (translated lang) cs)"
    by (rule Cons.IH) (simp add: Cons.prems)
  show ?case
    using rest by (simp add: forEach_append forEach_in_child c)
qed

lemma forEach_Cons:
  "forEach_setElementText lang d (p # ps)
     = forEach_setElementText lang (update_at p (setElementText lang) d) ps"
  by (simp add: forEach_setElementText_def)

lemma forEach_is_translated:
  "forEach_setElementText lang n (querySelectorAll_data_fr_en n) = translated lang n"
proof (induction n)
  case (Text s)
  show ?case by (simp add: forEach_setElementText_def)
next
  case (Element tag attrs ph ch)
  have children: "\<And>ph'. forEach_setElementText lang (Element tag attrs ph' ch)
         (querySelectorAll_children 0 ch) = Element tag attrs ph' (map (translated lang) ch)"
    using forEach_children [of ch lang tag attrs _ "[]"] Element.IH by simp
  have overwritten: "\<And>t. forEach_setElementText lang (Element tag attrs ph [Text t])
         (querySelectorAll_children 0 ch) = Element tag attrs ph [Text t]"
    by (rule forEach_overwritten) (metis querySelectorAll_children_nonempty)
  show ?case
  proof (cases "matches_data_fr_en (Element tag attrs ph ch)")
    case False
    then show ?thesis by (simp add: children)
  next
    case True
    then show ?thesis
      by (auto simp: forEach_Cons children overwritten truthy_def Let_def
          split: option.splits)
  qed
qed

subsection \<open>Elements along a path\<close>

lemma documentElement_updateLanguageButton:
  "documentElement (updateLanguageButton s) = documentElement s"
  by (simp add: updateLanguageButton_def split: option.splits)

lemma currentLang_updateLanguageButton: "currentLang (updateLanguageButton s) = currentLang s"
  by (simp add: updateLanguageButton_def split: option.splits)

lemma documentElement_lang_updateLanguageButton:
  "documentElement_lang (updateLanguageButton s) = documentElement_lang s"
  by (simp add: updateLanguageButton_def split: option.splits)

lemma localStorage_updateLanguageButton:
  "localStorage (updateLanguageButton s) = localStorage s"
  by (simp add: updateLanguageButton_def split: option.splits)

lemma documentElement_setLanguage:
  "documentElement (setLanguage s lang) = translated lang (documentElement s)"
  by (simp add: setLanguage_def documentElement_updateLanguageButton forEach_is_translated)

lemma currentLang_setLanguage: "currentLang (setLanguage s lang) = lang"
  by (simp add: setLanguage_def currentLang_updateLanguageButton)

lemma langSwitch_click_after_en:
  "langSwitch_click (setLanguage s ''en'') = setLanguage (setLanguage s ''en'') ''fr''"
  by (simp add: langSwitch_click_def currentLang_setLanguage)





lemma getAttribute_translated:
  "getAttribute (translated lang e) name = getAttribute e name"
  by (cases e) (simp_all split: option.splits)

lemma matches_translated: "matches_data_fr_en (translated lang e) = matches_data_fr_en e"
  by (simp add: matches_data_fr_en_def hasAttribute_def getAttribute_translated)






text \<open>
  A translated element inside a translated element: the first run replaces the children
  of the outer one, the inner one is no longer in the document, and the next run finds
  the outer one only.
\<close>

lemma setLanguage_detaches_nested:
  "documentElement (setLanguage nested_page ''en'')
     = Element ''HTML'' [] []
         [Element ''DIV'' [(''data-fr'', ''ParentFr''), (''data-en'', ''ParentEn'')] []
            [Text ''ParentEn'']]
   \<and> documentElement (langSwitch_click (setLanguage nested_page ''en''))
     = Element ''HTML'' [] []
         [Element ''DIV'' [(''data-fr'', ''ParentFr''), (''data-en'', ''ParentEn'')] []
            [Text ''ParentFr'']]"
  by (simp add: langSwitch_click_after_en documentElement_setLanguage nested_page_def
      matches_data_fr_en_def hasAttribute_def ascii_lowercase_def)




text \<open>
  C10: every call of \<^verbatim>\<open>setLanguage\<close> sets the \<^verbatim>\<open>lang\<close> attribute of the document root
  to the language it was called with, next to the field and the stored key; so do the
  constructor and the click on the switch, which go through it.
\<close>

theorem setLanguage_sets_root_lang:
  "documentElement_lang (setLanguage s lang) = lang
   \<and> currentLang (setLanguage s lang) = lang
   \<and> getItem (localStorage (setLanguage s lang)) ''lang'' = Some lang
   \<and> documentElement_lang (LanguageManager_new s) = currentLang (LanguageManager_new s)
   \<and> documentElement_lang (langSwitch_click s) = currentLang (langSwitch_click s)"
  by (simp add: setLanguage_def LanguageManager_new_def langSwitch_click_def Let_def
      documentElement_lang_updateLanguageButton currentLang_updateLanguageButton
      localStorage_updateLanguageButton getItem_setItem)

section \<open>The menu and its three markers\<close>

lemma dispatch_classes_agree:
  "classes_agree s b \<Longrightarrow> classes_agree (dispatch s e) (menu_spec b e)"
  by (cases e)
    (auto simp: classes_agree_def toggle_click_def toggleMenu_def closeMenu_def
      document_click_def menuLink_click_def window_resize_def classList_toggle_def Let_def)

lemma dispatch_transition_agrees:
  "classes_agree s b \<Longrightarrow> is_transition e \<Longrightarrow> menu_agrees (dispatch s e) (menu_spec b e)"
  by (cases e)
    (auto simp: menu_agrees_def classes_agree_def toggle_click_def toggleMenu_def
      closeMenu_def document_click_def menuLink_click_def window_resize_def
      classList_toggle_def Let_def)

lemma dispatch_menu_agrees:
  "menu_agrees s b \<Longrightarrow> menu_agrees (dispatch s e) (menu_spec b e)"
  by (cases e)
    (auto simp: menu_agrees_def classes_agree_def toggle_click_def toggleMenu_def
      closeMenu_def document_click_def menuLink_click_def window_resize_def
      classList_toggle_def Let_def)

lemma foldl_menu_agrees:
  "menu_agrees s b \<Longrightarrow> menu_agrees (foldl dispatch s es) (foldl menu_spec b es)"
  by (induction es arbitrary: s b) (simp_all add: dispatch_menu_agrees)

lemma foldl_transition_agrees:
  "classes_agree s b \<Longrightarrow> \<exists>e\<in>set es. is_transition e
   \<Longrightarrow> menu_agrees (foldl dispatch s es) (foldl menu_spec b es)"
proof (induction es arbitrary: s b)
  case Nil
  then show ?case by simp
next
  case (Cons e es)
  show ?case
  proof (cases "is_transition e")
    case True
    from dispatch_transition_agrees [OF Cons.prems(1) True]
    show ?thesis by (simp add: foldl_menu_agrees)
  next
    case False
    with Cons.prems(2) have later: "\<exists>e\<in>set es. is_transition e" by auto
    from Cons.IH [OF dispatch_classes_agree [OF Cons.prems(1)] later]
    show ?thesis by simp
  qed
qed

lemma force_closed:
  "is_transition e \<Longrightarrow> e \<noteq> TriggerClick \<Longrightarrow> menu_agrees (dispatch s e) False"
  by (cases e)
    (auto simp: menu_agrees_def classes_agree_def closeMenu_def document_click_def
      menuLink_click_def window_resize_def)

text \<open>
  C6: start from a closed menu (no state class on the trigger nor on the panel) and
  deliver any sequence of events. If the sequence holds at least one transition (a click
  on the trigger, outside, or on a contained link, or a resize to a width of at least
  768), or if the trigger's ARIA flag said \<open>''false''\<close> to begin with, then the state
  class of the trigger, the state class of the panel and the ARIA flag all agree with
  the state that the two-state machine of the specification reaches on that sequence.
  Moreover a click outside, a click on a contained link and a resize to at least 768
  leave all three closed from any state whatsoever.
\<close>

theorem menu_markers_agree:
  assumes "''active'' \<notin> toggle_classList s" and "''active'' \<notin> menu_classList s"
    and "aria_expanded s = Some ''false'' \<or> (\<exists>e\<in>set es. is_transition e)"
  shows "((''active'' \<in> toggle_classList (menu_events s es)) = menu_spec_run es)
   \<and> ((''active'' \<in> menu_classList (menu_events s es)) = menu_spec_run es)
   \<and> aria_expanded (menu_events s es) = Some (if menu_spec_run es then ''true'' else ''false'')
   \<and> menu_agrees (dispatch s' LinkClick) False
   \<and> menu_agrees (dispatch s' OutsideClick) False
   \<and> (768 \<le> w \<longrightarrow> menu_agrees (dispatch s' (Resize w)) False)"
proof -
  have c: "classes_agree s False"
    using assms(1,2) by (simp add: classes_agree_def)
  have "menu_agrees (foldl dispatch s es) (foldl menu_spec False es)"
  proof (cases "\<exists>e\<in>set es. is_transition e")
    case True
    then show ?thesis by (rule foldl_transition_agrees [OF c])
  next
    case False
    with assms(3) have "menu_agrees s False"
      using c by (simp add: menu_agrees_def)
    then show ?thesis by (rule foldl_menu_agrees)
  qed
  then have run: "menu_agrees (menu_events s es) (menu_spec_run es)"
    by (simp add: menu_events_def menu_spec_run_def)
  have forced: "menu_agrees (dispatch s' LinkClick) False"
    "menu_agrees (dispatch s' OutsideClick) False"
    "768 \<le> w \<longrightarrow> menu_agrees (dispatch s' (Resize w)) False"
    using force_closed [of LinkClick s'] force_closed [of OutsideClick s']
      force_closed [of "Resize w" s']
    by simp_all
  from run forced show ?thesis
    by (simp add: menu_agrees_def classes_agree_def)
qed

theorem menu_markers_agree_witness:
  "''active'' \<in> toggle_classList (menu_events closed_menu [TriggerClick])
   \<and> ''active'' \<in> menu_classList (menu_events closed_menu [TriggerClick])
   \<and> aria_expanded (menu_events closed_menu [TriggerClick]) = Some ''true''
   \<and> menu_agrees (dispatch (menu_events closed_menu [TriggerClick]) (Resize 768)) False"
proof -
  have a: "''active'' \<notin> toggle_classList closed_menu"
    and b: "''active'' \<notin> menu_classList closed_menu"
    by (simp_all add: closed_menu_def)
  have c: "aria_expanded closed_menu = Some ''false''
      \<or> (\<exists>e\<in>set [TriggerClick]. is_transition e)"
    by simp
  show ?thesis
    using menu_markers_agree [OF a b c, of "menu_events closed_menu [TriggerClick]" 768]
    by (simp add: menu_spec_run_def)
qed

section \<open>Anchor clicks\<close>

text \<open>
  The four ways a click on an anchor ends. For a bare \<^verbatim>\<open>#\<close> the listener suppresses the
  default navigation and makes no lookup. Otherwise the lookup of the href as a selector
  decides: when the platform rejects the selector, the listener ends with the exception,
  before any effect; when it finds nothing, the listener returns with the default
  navigation untouched; when it finds an element, the listener suppresses the default
  navigation and asks once for a smooth scroll to bounding top plus scroll offset minus
  80.
\<close>

lemma anchor_click_outcomes:
  "anchor_click page ''#'' = Inr \<lparr>defaultPrevented = True, scrollTo_calls = []\<rparr>
   \<and> (href \<noteq> ''#'' \<and> querySelector page href = Inl exn
        \<longrightarrow> anchor_click page href = Inl exn)
   \<and> (href \<noteq> ''#'' \<and> querySelector page href = Inr None
        \<longrightarrow> anchor_click page href = Inr \<lparr>defaultPrevented = False, scrollTo_calls = []\<rparr>)
   \<and> (href \<noteq> ''#'' \<and> querySelector page href = Inr (Some P) \<and> pageYOffset page = S
        \<longrightarrow> anchor_click page href
            = Inr \<lparr>defaultPrevented = True,
                   scrollTo_calls = [\<lparr>scroll_top = P + S - 80, behavior = ''smooth''\<rparr>]\<rparr>)"
  by (simp add: anchor_click_def Let_def)

text \<open>
  C7, at a click on \<^verbatim>\<open><a href="#1">\<close> where the page has an element of id \<^verbatim>\<open>1\<close> with
  its top at 500, under a scroll offset of 300: the fragment of the href names that
  element, but the listener hands the href to \<^verbatim>\<open>querySelector\<close> as a selector, the
  platform rejects it, and the listener ends with the exception. It neither suppresses
  the default navigation nor asks for the smooth scroll to \<open>500 + 300 - 80\<close>.
\<close>

theorem anchor_click_numeric_id_not_scrolled:
  "fragment_target numbered_page ''#1'' = Some 500
   \<and> pageYOffset numbered_page = 300
   \<and> anchor_click numbered_page ''#1'' = Inl SyntaxError
   \<and> anchor_click numbered_page ''#1''
       \<noteq> Inr \<lparr>defaultPrevented = True,
               scrollTo_calls = [\<lparr>scroll_top = 500 + 300 - 80, behavior = ''smooth''\<rparr>]\<rparr>"
  by (simp add: anchor_click_def numbered_page_def fragment_target_def)

text \<open>
  C9, at a click on \<^verbatim>\<open><a href="#1">\<close>: the listener hands the href to
  \<^verbatim>\<open>querySelector\<close>, the platform rejects it, and the listener ends with the exception.
\<close>

theorem anchor_click_invalid_selector_raises:
  "anchor_click contact_page ''#1'' = Inl SyntaxError"
  by (simp add: anchor_click_def contact_page_def)

section \<open>The one-shot reveal\<close>

lemma styles_arm:
  "styles (arm s el) x
     = (if x = el then (styles s el)\<lparr>opacity := ''0'', transform := ''translateY(20px)'',
            transition := ''opacity 0.6s ease, transform 0.6s ease''\<rparr>
        else styles s x)"
  by (simp add: arm_def)

lemma hidden_arm: "hidden (arm s el) x = (x = el \<or> hidden s x)"
  by (auto simp: hidden_def styles_arm)

lemma hidden_foldl_arm: "hidden (foldl arm s els) x = (x \<in> set els \<or> hidden s x)"
  by (induction els arbitrary: s) (auto simp: hidden_arm)

lemma observed_foldl_arm: "observed (foldl arm s els) = observed s @ els"
  by (induction els arbitrary: s) (simp_all add: arm_def)

lemma shown_reveal:
  "shown (reveal s en) x = ((target en = x \<and> isIntersecting en) \<or> shown s x)"
  by (auto simp: shown_def reveal_def)

lemma hidden_reveal:
  "hidden (reveal s en) x = (\<not> (target en = x \<and> isIntersecting en) \<and> hidden s x)"
  by (auto simp: hidden_def reveal_def)

lemma shown_foldl_reveal:
  "shown (foldl reveal s ens) x
     = ((\<exists>en\<in>set ens. target en = x \<and> isIntersecting en) \<or> shown s x)"
  by (induction ens arbitrary: s) (auto simp: shown_reveal)

lemma hidden_foldl_reveal:
  "hidden (foldl reveal s ens) x
     = ((\<forall>en\<in>set ens. \<not> (target en = x \<and> isIntersecting en)) \<and> hidden s x)"
  by (induction ens arbitrary: s) (auto simp: hidden_reveal)

lemma shown_foldl_callback:
  "shown s x \<Longrightarrow> shown (foldl observer_callback s batches) x"
  by (induction batches arbitrary: s) (simp_all add: observer_callback_def shown_foldl_reveal)

text \<open>
  C8: every element handed to the set-up is observed and hidden (opacity 0, moved down
  by 20) when the set-up returns, and stays hidden through every batch of entries that
  does not report it as intersecting; a batch that reports it as intersecting shows it
  (opacity 1, not moved); and once shown it stays shown through every later sequence
  of batches, whatever they report.
\<close>

theorem fade_in_one_shot:
  assumes "el \<in> set elementsToAnimate"
  shows "hidden (ScrollAnimations_init s0 elementsToAnimate) el
   \<and> el \<in> set (observed (ScrollAnimations_init s0 elementsToAnimate))
   \<and> (hidden s el \<and> (\<forall>en\<in>set quiet. target en = el \<longrightarrow> \<not> isIntersecting en)
        \<longrightarrow> hidden (observer_callback s quiet) el)
   \<and> ((\<exists>en\<in>set entries. target en = el \<and> isIntersecting en)
        \<longrightarrow> shown (observer_callback s entries) el)
   \<and> (shown s el \<longrightarrow> shown (observer_callbacks s batches) el)"
proof -
  have a: "hidden (ScrollAnimations_init s0 elementsToAnimate) el"
    using assms by (simp add: ScrollAnimations_init_def hidden_foldl_arm)
  have b: "el \<in> set (observed (ScrollAnimations_init s0 elementsToAnimate))"
    using assms by (simp add: ScrollAnimations_init_def observed_foldl_arm)
  have c: "hidden s el \<and> (\<forall>en\<in>set quiet. target en = el \<longrightarrow> \<not> isIntersecting en)
        \<longrightarrow> hidden (observer_callback s quiet) el"
    by (auto simp: observer_callback_def hidden_foldl_reveal)
  have d: "(\<exists>en\<in>set entries. target en = el \<and> isIntersecting en)
        \<longrightarrow> shown (observer_callback s entries) el"
    by (simp add: observer_callback_def shown_foldl_reveal)
  have e: "shown s el \<longrightarrow> shown (observer_callbacks s batches) el"
    by (simp add: observer_callbacks_def shown_foldl_callback)
  from a b c d e show ?thesis by blast
qed

theorem fade_in_one_shot_witness:
  "hidden (ScrollAnimations_init unstyled_page [3, 7]) 7
   \<and> hidden (observer_callback (ScrollAnimations_init unstyled_page [3, 7])
        [\<lparr>target = 7, isIntersecting = False\<rparr>, \<lparr>target = 3, isIntersecting = True\<rparr>]) 7
   \<and> shown (observer_callback (ScrollAnimations_init unstyled_page [3, 7])
        [\<lparr>target = 7, isIntersecting = True\<rparr>]) 7
   \<and> shown (observer_callbacks
        (observer_callback (ScrollAnimations_init unstyled_page [3, 7])
          [\<lparr>target = 7, isIntersecting = True\<rparr>])
        [[\<lparr>target = 7, isIntersecting = False\<rparr>], [\<lparr>target = 3, isIntersecting = False\<rparr>]]) 7"
proof -
  have m: "(7::nat) \<in> set [3, 7]" by simp
  let ?s = "ScrollAnimations_init unstyled_page [3, 7]"
  let ?quiet = "[\<lparr>target = 7, isIntersecting = False\<rparr>, \<lparr>target = 3, isIntersecting = True\<rparr>]"
  let ?hit = "[\<lparr>target = 7::nat, isIntersecting = True\<rparr>]"
  let ?later = "[[\<lparr>target = 7::nat, isIntersecting = False\<rparr>],
                 [\<lparr>target = 3, isIntersecting = False\<rparr>]]"
  have h0: "hidden ?s 7"
    using fade_in_one_shot [OF m, of unstyled_page ?s "[]" "[]" "[]"] by simp
  have h1: "hidden (observer_callback ?s ?quiet) 7"
    using fade_in_one_shot [OF m, of unstyled_page ?s ?quiet "[]" "[]"] h0 by simp
  have s1: "shown (observer_callback ?s ?hit) 7"
    using fade_in_one_shot [OF m, of unstyled_page ?s "[]" ?hit "[]"] by simp
  have s2: "shown (observer_callbacks (observer_callback ?s ?hit) ?later) 7"
    using fade_in_one_shot [OF m, of unstyled_page "observer_callback ?s ?hit" "[]" "[]" ?later]
      s1 by simp
  from h0 h1 s1 s2 show ?thesis by simp
qed

end
